theory Spec2Isabelle
  imports Main "HOL-Library.Sublist"
begin

section \<open>Data model of the run tree view (src/commands/tflint.ts)\<close>

text \<open>
  The TypeScript types \<open>Run\<close>, \<open>IncludedObject\<close>, \<open>ConfigurationVersion\<close>,
  \<open>WorkspaceTreeItem\<close> and the attribute types are imported by the source from
  modules outside it. The records below hold exactly the fields the source reads.
  A JavaScript value that may be \<open>undefined\<close> (an optional property, the result of
  an optional chain \<open>a?.b\<close>, a missing return) is an \<open>option\<close>.
\<close>

text \<open>A relationship of a JSON:API resource: \<open>rel?.data?.id\<close>.\<close>

record resource_ref =
  ref_id :: "string option"

record relationship =
  rel_data :: "resource_ref option"

text \<open>
  The attributes object of an included resource. The casts \<open>as PlanAttributes\<close>,
  \<open>as ApplyAttributes\<close>, \<open>as UserAttributes\<close>, \<open>as IngressAttributes\<close> exist at
  compile time only: each is a view of the same object, so the record lists the
  fields the source reads through any of them.
\<close>

record attributes =
  att_status :: string
  att_avatar_url :: string
  att_username :: string
  att_sender_avatar_url :: string
  att_sender_username :: string
  att_commit_sha :: string
  att_branch :: string
  att_identifier :: string
  att_clone_url :: string
  att_commit_url :: string
  att_commit_message :: string
  att_source :: "string option"

type_synonym PlanAttributes = attributes
type_synonym ApplyAttributes = attributes
type_synonym UserAttributes = attributes
type_synonym IngressAttributes = attributes
type_synonym ConfigurationVersionAttributes = attributes

text \<open>
  \<open>IncludedObject\<close>; \<open>ConfigurationVersion\<close> is the same object seen through the
  cast at the end of \<open>findConfigurationVersionAttributes\<close>, which reads
  \<open>relationships['ingress-attributes']\<close> of it.
\<close>

record IncludedObject =
  inc_type :: string
  inc_id :: string
  inc_attributes :: attributes
  inc_ingress_attributes :: "relationship option"

type_synonym ConfigurationVersion = IncludedObject

record RunAttributes =
  run_message :: string
  run_status :: string
  run_trigger_reason :: string
  run_created_at :: string
  run_source :: string

record RunRelationships =
  rel_plan :: "relationship option"
  rel_apply :: "relationship option"
  rel_configuration_version :: "relationship option"
  rel_created_by :: "relationship option"

record Run =
  run_id :: string
  run_attributes :: RunAttributes
  run_relationships :: RunRelationships

section \<open>Relational lookup helpers (lines 287-335)\<close>

text \<open>The optional chain \<open>rel?.data?.id\<close>: undefined as soon as one link is.\<close>

definition chain_data_id :: "relationship option \<Rightarrow> string option" where
  "chain_data_id rel =
     (case rel of
        None \<Rightarrow> None
      | Some r \<Rightarrow> (case rel_data r of None \<Rightarrow> None | Some d \<Rightarrow> ref_id d))"

text \<open>
  \<open>included.id === x\<close> where \<open>included.id\<close> is a string and \<open>x\<close> may be
  undefined: strict equality holds only when \<open>x\<close> is that string.
\<close>

definition strict_eq :: "string \<Rightarrow> string option \<Rightarrow> bool" where
  "strict_eq s x = (x = Some s)"

text \<open>
  \<open>Array.prototype.find\<close> is \<^const>\<open>List.find\<close>: the first element the
  predicate holds of, undefined (None) when there is none.
\<close>

definition findConfigurationVersionAttributes ::
    "IncludedObject list \<Rightarrow> Run \<Rightarrow> ConfigurationVersion option" where
  "findConfigurationVersionAttributes included run =
     (let includedObject = List.find
            (\<lambda>inc. inc_type inc = ''configuration-versions'' \<and>
                   strict_eq (inc_id inc)
                     (chain_data_id (rel_configuration_version (run_relationships run))))
            included
      in case includedObject of
           Some obj \<Rightarrow> Some obj
         | None \<Rightarrow> None)"

definition findPlanAttributes :: "IncludedObject list \<Rightarrow> Run \<Rightarrow> PlanAttributes option" where
  "findPlanAttributes included run =
     (let plan = List.find
            (\<lambda>inc. inc_type inc = ''plans'' \<and>
                   strict_eq (inc_id inc) (chain_data_id (rel_plan (run_relationships run))))
            included
      in case plan of
           Some obj \<Rightarrow> Some (inc_attributes obj)
         | None \<Rightarrow> None)"

definition findApplyAttributes :: "IncludedObject list \<Rightarrow> Run \<Rightarrow> ApplyAttributes option" where
  "findApplyAttributes included run =
     (let apply = List.find
            (\<lambda>inc. inc_type inc = ''applies'' \<and>
                   strict_eq (inc_id inc) (chain_data_id (rel_apply (run_relationships run))))
            included
      in case apply of
           Some obj \<Rightarrow> Some (inc_attributes obj)
         | None \<Rightarrow> None)"

definition findCreatedByAttributes :: "IncludedObject list \<Rightarrow> Run \<Rightarrow> UserAttributes option" where
  "findCreatedByAttributes included run =
     (let includedObject = List.find
            (\<lambda>inc. inc_type inc = ''users'' \<and>
                   strict_eq (inc_id inc) (chain_data_id (rel_created_by (run_relationships run))))
            included
      in case includedObject of
           Some obj \<Rightarrow> Some (inc_attributes obj)
         | None \<Rightarrow> None)"

definition findIngressAttributes ::
    "IncludedObject list \<Rightarrow> ConfigurationVersion \<Rightarrow> IngressAttributes option" where
  "findIngressAttributes included cfgVersion =
     (let includedObject = List.find
            (\<lambda>inc. inc_type inc = ''ingress-attributes'' \<and>
                   strict_eq (inc_id inc) (chain_data_id (inc_ingress_attributes cfgVersion)))
            included
      in case includedObject of
           Some obj \<Rightarrow> Some (inc_attributes obj)
         | None \<Rightarrow> None)"

section \<open>Host values and imported helpers\<close>

record WorkspaceAttributes =
  ws_name :: string
  ws_execution_mode :: string

record WorkspaceTreeItem =
  ws_id :: string
  ws_attributes :: WorkspaceAttributes

record ThemeIcon =
  icon_id :: string

text \<open>
  The functions and tables the source imports from modules outside it
  (\<open>./helpers\<close>, \<open>../../terraformCloud/run\<close>, \<open>../../terraformCloud/errors\<close>)
  are parameters of the model. A table is a partial map: a key it lacks reads as
  undefined.
\<close>

record externals =
  RelativeTimeFormat :: "string \<Rightarrow> string"
  TRIGGER_REASON :: "string \<Rightarrow> string option"
  RUN_SOURCE :: "string \<Rightarrow> string option"
  CONFIGURATION_SOURCE :: "string \<Rightarrow> string option"
  GetRunStatusIcon :: "string \<Rightarrow> ThemeIcon"
  GetRunStatusMessage :: "string \<Rightarrow> string"
  apiErrorsToString :: "string list \<Rightarrow> string"

text \<open>
  String conversion of a value that may be undefined, as a template literal
  \<open>`${x}`\<close> and the operator \<open>+\<close> on a string do it.
\<close>

definition js_string :: "string option \<Rightarrow> string" where
  "js_string x = (case x of None \<Rightarrow> ''undefined'' | Some s \<Rightarrow> s)"

text \<open>Truthiness of a string that may be undefined: defined and not empty.\<close>

definition truthy :: "string option \<Rightarrow> bool" where
  "truthy x = (case x of None \<Rightarrow> False | Some s \<Rightarrow> s \<noteq> [])"

section \<open>Run tree item (lines 337-356)\<close>

datatype TreeItemCollapsibleState = CollapsibleNone | Collapsed | Expanded

record RunTreeItem =
  rti_label :: string
  rti_collapsibleState :: TreeItemCollapsibleState
  rti_id :: string
  rti_attributes :: RunAttributes
  rti_workspace :: WorkspaceTreeItem
  rti_iconPath :: ThemeIcon
  rti_description :: string
  rti_contextValue :: "string option"
  rti_createdBy :: "UserAttributes option"
  rti_configurationVersion :: "ConfigurationVersionAttributes option"
  rti_ingressAttributes :: "IngressAttributes option"
  rti_planAttributes :: "PlanAttributes option"
  rti_planId :: "string option"
  rti_applyAttributes :: "ApplyAttributes option"
  rti_applyId :: "string option"

definition new_RunTreeItem ::
    "externals \<Rightarrow> string \<Rightarrow> RunAttributes \<Rightarrow> WorkspaceTreeItem \<Rightarrow> RunTreeItem" where
  "new_RunTreeItem ext ident attrs workspace =
     \<lparr> rti_label = run_message attrs,
       rti_collapsibleState = CollapsibleNone,
       rti_id = ident,
       rti_attributes = attrs,
       rti_workspace = workspace,
       rti_iconPath = GetRunStatusIcon ext (run_status attrs),
       rti_description = run_trigger_reason attrs @ '' '' @ run_created_at attrs,
       rti_contextValue = None,
       rti_createdBy = None,
       rti_configurationVersion = None,
       rti_ingressAttributes = None,
       rti_planAttributes = None,
       rti_planId = None,
       rti_applyAttributes = None,
       rti_applyId = None \<rparr>"

text \<open>The object literal returned for an empty page, and the elements of the tree.\<close>

record TreeItem =
  ti_label :: string
  ti_tooltip :: string
  ti_contextValue :: string

datatype tree_element = PlainItem TreeItem | RunElement RunTreeItem

section \<open>Markdown formatter (lines 358-414)\<close>

record MarkdownString =
  md_value :: string
  md_supportHtml :: bool
  md_supportThemeIcons :: bool

definition new_MarkdownString :: MarkdownString where
  "new_MarkdownString = \<lparr> md_value = [], md_supportHtml = False, md_supportThemeIcons = False \<rparr>"

definition appendMarkdown :: "string \<Rightarrow> MarkdownString \<Rightarrow> MarkdownString" where
  "appendMarkdown s md = md\<lparr> md_value := md_value md @ s \<rparr>"

text \<open>\<open>s.slice(0, 8)\<close> and \<open>s.split('\n')[0]\<close>.\<close>

definition slice_0_8 :: "string \<Rightarrow> string" where
  "slice_0_8 s = take 8 s"

definition first_line :: "string \<Rightarrow> string" where
  \<open>first_line s = takeWhile (\<lambda>c. c \<noteq> CHR ''\<newline>'') s\<close>

definition creator_markdown :: "UserAttributes \<Rightarrow> string" where
  \<open>creator_markdown createdBy =
     ''<img src="'' @ att_avatar_url createdBy @ ''" width="20"> **'' @
     att_username createdBy @ ''**''\<close>

definition sender_markdown :: "IngressAttributes \<Rightarrow> string" where
  \<open>sender_markdown ingressAttributes =
     ''<img src="'' @ att_sender_avatar_url ingressAttributes @ ''" width="20"> **'' @
     att_sender_username ingressAttributes @ ''**''\<close>

definition summary_markdown :: "string \<Rightarrow> string \<Rightarrow> string \<Rightarrow> string" where
  \<open>summary_markdown triggerReason runSource createdAtTime =
     '' '' @ triggerReason @ '' from '' @ runSource @ '' '' @ createdAtTime\<close>

definition table_head_markdown :: "string \<Rightarrow> string \<Rightarrow> string \<Rightarrow> string" where
  \<open>table_head_markdown ident iconId msg =
     ''\<newline>\<newline>-----\<newline>_____\<newline>| | |\<newline>-:|--\<newline>| **Run ID**   | `'' @
     ident @ ''` |\<newline>| **Status** | $('' @ iconId @ '') '' @ msg @ '' |\<newline>''\<close>

definition vcs_configuration_markdown :: "string \<Rightarrow> IngressAttributes \<Rightarrow> string" where
  \<open>vcs_configuration_markdown cfgSource ingressAttributes =
     ''| **Configuration** | From '' @ cfgSource @ '' by <img src="'' @
     att_sender_avatar_url ingressAttributes @ ''" width="20"> '' @
     att_sender_username ingressAttributes @ '' **Branch** '' @
     att_branch ingressAttributes @ '' **Repo** ['' @
     att_identifier ingressAttributes @ '']('' @ att_clone_url ingressAttributes @
     '') |\<newline>| **Commit** | ['' @ slice_0_8 (att_commit_sha ingressAttributes) @ '']('' @
     att_commit_url ingressAttributes @ ''): '' @
     first_line (att_commit_message ingressAttributes) @ '' |\<newline>''\<close>

definition plain_configuration_markdown :: "string \<Rightarrow> string" where
  \<open>plain_configuration_markdown runSource =
     ''| **Configuration** | From '' @ runSource @ '' |\<newline>''\<close>

definition trailer_markdown :: "string \<Rightarrow> string \<Rightarrow> string" where
  \<open>trailer_markdown triggerReason executionMode =
     ''| **Trigger** | '' @ triggerReason @ '' |\<newline>| **Execution Mode** | '' @
     executionMode @ '' |\<newline>''\<close>

definition runMarkdown :: "externals \<Rightarrow> RunTreeItem \<Rightarrow> MarkdownString" where
  "runMarkdown ext item =
     (let markdown = new_MarkdownString;
          markdown = markdown\<lparr> md_supportHtml := True \<rparr>;
          markdown = markdown\<lparr> md_supportThemeIcons := True \<rparr>;
          createdAtTime = RelativeTimeFormat ext (run_created_at (rti_attributes item));
          markdown =
            (case rti_createdBy item of
               Some createdBy \<Rightarrow> appendMarkdown (creator_markdown createdBy) markdown
             | None \<Rightarrow>
                 (case rti_ingressAttributes item of
                    Some ingressAttributes \<Rightarrow>
                      appendMarkdown (sender_markdown ingressAttributes) markdown
                  | None \<Rightarrow> markdown));
          triggerReason =
            js_string (TRIGGER_REASON ext (run_trigger_reason (rti_attributes item)));
          icon = GetRunStatusIcon ext (run_status (rti_attributes item));
          msg = GetRunStatusMessage ext (run_status (rti_attributes item));
          markdown = appendMarkdown
            (summary_markdown triggerReason
               (js_string (RUN_SOURCE ext (run_source (rti_attributes item)))) createdAtTime)
            markdown;
          markdown = appendMarkdown
            (table_head_markdown (rti_id item) (icon_id icon) msg) markdown;
          markdown =
            (case (rti_ingressAttributes item, rti_configurationVersion item) of
               (Some ingressAttributes, Some configurationVersion) \<Rightarrow>
                 (if truthy (att_source configurationVersion)
                  then appendMarkdown
                         (vcs_configuration_markdown
                            (js_string (CONFIGURATION_SOURCE ext
                               (js_string (att_source configurationVersion))))
                            ingressAttributes)
                         markdown
                  else appendMarkdown
                         (plain_configuration_markdown (run_source (rti_attributes item)))
                         markdown)
             | _ \<Rightarrow>
                 appendMarkdown
                   (plain_configuration_markdown (run_source (rti_attributes item)))
                   markdown)
      in appendMarkdown
           (trailer_markdown triggerReason (ws_execution_mode (ws_attributes (rti_workspace item))))
           markdown)"

section \<open>Values thrown by the API client\<close>

text \<open>
  What the \<open>catch\<close> block of \<open>getRuns\<close> can tell apart: a \<open>ZodiosError\<close>, an
  Axios error (with \<open>error.response?.status\<close>, and, when
  \<open>isErrorFromAlias(apiClient.api, 'listRuns', error)\<close> holds,
  \<open>error.response.data.errors\<close>), any other instance of \<open>Error\<close>, a thrown
  string, and any other thrown value. \<open>ZodiosError\<close> and the Axios error are
  subclasses of \<open>Error\<close>.
\<close>

record AxiosError =
  ax_message :: string
  ax_response_status :: "nat option"
  ax_alias_errors :: "string list option"

datatype thrown =
    ZodiosError string
  | AxiosErr AxiosError
  | OtherError string
  | ThrownString string
  | ThrownOther

definition instanceof_ZodiosError :: "thrown \<Rightarrow> bool" where
  "instanceof_ZodiosError e = (case e of ZodiosError m \<Rightarrow> True | _ \<Rightarrow> False)"

definition isAxiosError :: "thrown \<Rightarrow> bool" where
  "isAxiosError e = (case e of AxiosErr a \<Rightarrow> True | _ \<Rightarrow> False)"

definition instanceof_Error :: "thrown \<Rightarrow> bool" where
  "instanceof_Error e =
     (case e of ZodiosError m \<Rightarrow> True | AxiosErr a \<Rightarrow> True | OtherError m \<Rightarrow> True
      | _ \<Rightarrow> False)"

definition typeof_string :: "thrown \<Rightarrow> bool" where
  "typeof_string e = (case e of ThrownString s \<Rightarrow> True | _ \<Rightarrow> False)"

definition response_status :: "thrown \<Rightarrow> nat option" where
  "response_status e = (case e of AxiosErr a \<Rightarrow> ax_response_status a | _ \<Rightarrow> None)"

definition isErrorFromAlias :: "thrown \<Rightarrow> bool" where
  "isErrorFromAlias e =
     (case e of AxiosErr a \<Rightarrow> (case ax_alias_errors a of Some errs \<Rightarrow> True | None \<Rightarrow> False)
      | _ \<Rightarrow> False)"

definition response_data_errors :: "thrown \<Rightarrow> string list" where
  "response_data_errors e =
     (case e of AxiosErr a \<Rightarrow> (case ax_alias_errors a of Some errs \<Rightarrow> errs | None \<Rightarrow> [])
      | _ \<Rightarrow> [])"

text \<open>\<open>error.message\<close> of an instance of \<open>Error\<close>, and the thrown string itself.\<close>

definition error_message :: "thrown \<Rightarrow> string" where
  "error_message e =
     (case e of ZodiosError m \<Rightarrow> m | AxiosErr a \<Rightarrow> ax_message a | OtherError m \<Rightarrow> m
      | _ \<Rightarrow> [])"

definition string_value :: "thrown \<Rightarrow> string" where
  "string_value e = (case e of ThrownString s \<Rightarrow> s | _ \<Rightarrow> [])"

section \<open>Run tree data provider (lines 57-285)\<close>

record ListRunsRequest =
  req_workspace_id :: string
  req_page_size :: nat
  req_include :: "string list"

record RunsResponse =
  runs_data :: "Run list"
  runs_included :: "IncludedObject list option"
  runs_total_count :: nat

record AuthenticationSession =
  session_access_token :: string

text \<open>
  The calls the provider makes into the editor host, the API client and the UI
  helpers, in the order it makes them.
\<close>

datatype effect =
    GetSession
  | ListRuns ListRunsRequest
  | SendTelemetryEvent string nat
  | HandleZodiosError thrown string
  | HandleAuthError
  | ShowWarningMessage string
  | ShowErrorMessage string
  | SendTelemetryException thrown
  | FireDidChangeTreeData

text \<open>
  What the host answers: the session \<open>vscode.authentication.getSession\<close> resolves
  to, and for each request what \<open>apiClient.listRuns\<close> resolves to (\<open>Inr\<close>) or
  throws (\<open>Inl\<close>).
\<close>

record host =
  host_session :: "AuthenticationSession option"
  host_listRuns :: "ListRunsRequest \<Rightarrow> thrown + RunsResponse"

record ExtensionContext =
  ctx_workspaceState :: "string \<Rightarrow> string option"
  ctx_subscriptions :: "string list"

datatype TelemetryReporter = TelemetryReporter nat
datatype OutputChannel = OutputChannel nat
datatype LanguageClient = LanguageClient nat

record RunTreeDataProvider =
  prov_activeWorkspace :: "WorkspaceTreeItem option"
  prov_ctx :: ExtensionContext
  prov_reporter :: TelemetryReporter
  prov_outputChannel :: OutputChannel

definition workspaceState_get :: "ExtensionContext \<Rightarrow> string \<Rightarrow> string \<Rightarrow> string" where
  "workspaceState_get c key dflt =
     (case ctx_workspaceState c key of None \<Rightarrow> dflt | Some v \<Rightarrow> v)"

definition refresh ::
    "WorkspaceTreeItem option \<Rightarrow> RunTreeDataProvider \<Rightarrow> effect list \<times> RunTreeDataProvider" where
  "refresh workspaceItem this =
     (let this = this\<lparr> prov_activeWorkspace := workspaceItem \<rparr>
      in ([FireDidChangeTreeData], this))"

definition gated_statuses :: "string list" where
  "gated_statuses = [''errored'', ''canceled'', ''finished'']"

text \<open>The body of the loop of \<open>getRuns\<close> (lines 194-234): the item of one run.\<close>

definition run_item ::
    "externals \<Rightarrow> WorkspaceTreeItem \<Rightarrow> IncludedObject list option \<Rightarrow> Run \<Rightarrow> RunTreeItem" where
  "run_item ext active included_opt run =
     (let runItem = new_RunTreeItem ext (run_id run) (run_attributes run) active
      in case included_opt of
           None \<Rightarrow> runItem
         | Some included \<Rightarrow>
            (let runItem = runItem\<lparr> rti_createdBy := findCreatedByAttributes included run \<rparr>;
                 runItem =
                   (case findConfigurationVersionAttributes included run of
                      Some cfgVersion \<Rightarrow>
                        runItem\<lparr> rti_configurationVersion := Some (inc_attributes cfgVersion),
                                 rti_ingressAttributes :=
                                   findIngressAttributes included cfgVersion \<rparr>
                    | None \<Rightarrow> runItem);
                 runItem =
                   (case rel_plan (run_relationships run) of
                      None \<Rightarrow> runItem
                    | Some plan_rel \<Rightarrow>
                       (case findPlanAttributes included run of
                          None \<Rightarrow> runItem
                        | Some planAttributes \<Rightarrow>
                            if att_status planAttributes \<in> set gated_statuses
                            then runItem\<lparr> rti_planId :=
                                            chain_data_id (rel_plan (run_relationships run)),
                                          rti_planAttributes := Some planAttributes,
                                          rti_contextValue := Some ''hasPlan'' \<rparr>
                            else runItem));
                 runItem =
                   (case rel_apply (run_relationships run) of
                      None \<Rightarrow> runItem
                    | Some apply_rel \<Rightarrow>
                       (case findApplyAttributes included run of
                          None \<Rightarrow> runItem
                        | Some applyAttributes \<Rightarrow>
                            if att_status applyAttributes \<in> set gated_statuses
                            then runItem\<lparr> rti_applyId :=
                                            chain_data_id (rel_apply (run_relationships run)),
                                          rti_applyAttributes := Some applyAttributes,
                                          rti_contextValue :=
                                            Some (js_string (rti_contextValue runItem) @
                                                  ''hasApply'') \<rparr>
                            else runItem))
             in runItem))"

text \<open>The loop itself: the runs of the page in order, each item pushed onto \<open>items\<close>.\<close>

fun getRuns_loop ::
    "externals \<Rightarrow> WorkspaceTreeItem \<Rightarrow> IncludedObject list option \<Rightarrow> Run list \<Rightarrow>
     RunTreeItem list \<Rightarrow> RunTreeItem list" where
  "getRuns_loop ext active included_opt [] items = items"
| "getRuns_loop ext active included_opt (run # rest) items =
     getRuns_loop ext active included_opt rest (items @ [run_item ext active included_opt run])"

text \<open>The \<open>catch\<close> block of \<open>getRuns\<close> (lines 238-279): the calls made and the items returned.\<close>

definition getRuns_catch ::
    "externals \<Rightarrow> WorkspaceTreeItem \<Rightarrow> WorkspaceTreeItem \<Rightarrow> thrown \<Rightarrow>
     effect list \<times> tree_element list" where
  "getRuns_catch ext active workspace error =
     (let message = ''Failed to list runs in '' @ ws_name (ws_attributes active) @ '' ('' @
                    ws_id workspace @ ''): ''
      in if instanceof_ZodiosError error then ([HandleZodiosError error message], [])
         else if isAxiosError error \<and> response_status error = Some 401
           then ([HandleAuthError], [])
         else if isAxiosError error \<and> response_status error = Some 404
           then ([ShowWarningMessage
                    (''Workspace '' @ ws_name (ws_attributes active) @ '' ('' @
                     ws_id workspace @ '') not found, please pick another one'')], [])
         else if isAxiosError error \<and> isErrorFromAlias error
           then ([ShowErrorMessage
                    (message @ apiErrorsToString ext (response_data_errors error)),
                  SendTelemetryException error], [])
         else if instanceof_Error error
           then ([ShowErrorMessage (message @ error_message error),
                  SendTelemetryException error], [])
         else (let message = (if typeof_string error then message @ string_value error
                              else message)
               in ([ShowErrorMessage message], [])))"

definition listRuns_request :: "WorkspaceTreeItem \<Rightarrow> ListRunsRequest" where
  "listRuns_request workspace =
     \<lparr> req_workspace_id = ws_id workspace,
       req_page_size = 100,
       req_include = [''plan'', ''apply'', ''configuration_version.ingress_attributes'',
                      ''created_by''] \<rparr>"

definition empty_item :: "WorkspaceTreeItem \<Rightarrow> TreeItem" where
  "empty_item active =
     \<lparr> ti_label = ''No runs found for '' @ ws_name (ws_attributes active),
       ti_tooltip = ''No runs found for '' @ ws_name (ws_attributes active),
       ti_contextValue = ''empty'' \<rparr>"

definition getRuns ::
    "externals \<Rightarrow> host \<Rightarrow> RunTreeDataProvider \<Rightarrow> WorkspaceTreeItem \<Rightarrow>
     effect list \<times> tree_element list" where
  "getRuns ext h this workspace =
     (let organization =
            workspaceState_get (prov_ctx this) ''terraform.cloud.organization'' []
      in if organization = [] then ([], [])
         else (case host_session h of
                 None \<Rightarrow> ([GetSession], [])
               | Some session \<Rightarrow>
                  (case prov_activeWorkspace this of
                     None \<Rightarrow> ([GetSession], [])
                   | Some active \<Rightarrow>
                      (case host_listRuns h (listRuns_request workspace) of
                         Inl error \<Rightarrow>
                           (let (calls, items) = getRuns_catch ext active workspace error
                            in ([GetSession, ListRuns (listRuns_request workspace)] @ calls,
                                items))
                       | Inr runs \<Rightarrow>
                           ([GetSession, ListRuns (listRuns_request workspace),
                             SendTelemetryEvent ''tfc-fetch-runs'' (runs_total_count runs)],
                            if length (runs_data runs) = 0
                            then [PlainItem (empty_item active)]
                            else map RunElement
                                   (getRuns_loop ext active (runs_included runs)
                                      (runs_data runs) []))))))"

text \<open>
  \<open>getChildren\<close> (lines 131-144). \<open>getRuns\<close> is asynchronous and handles what is
  thrown inside it, so the \<open>catch\<close> around the call is never entered.
\<close>

definition getChildren ::
    "externals \<Rightarrow> host \<Rightarrow> RunTreeDataProvider \<Rightarrow> tree_element option \<Rightarrow>
     effect list \<times> tree_element list" where
  "getChildren ext h this element =
     (case element of
        Some e \<Rightarrow> ([], [e])
      | None \<Rightarrow>
         (case prov_activeWorkspace this of
            None \<Rightarrow> ([], [])
          | Some active \<Rightarrow> getRuns ext h this active))"

section \<open>TFLint command registrar (lines 11-25)\<close>

text \<open>
  The host's command registry, as far as the registrar uses it: the commands
  registered so far, each with its handler, and the registrations disposed of.
  The handler of \<open>terraform.tflint\<close> is the closure
  \<open>async () => { await terraform.tflint(this.client, this.reporter) }\<close>.
\<close>

datatype command_handler = TflintHandler LanguageClient TelemetryReporter

datatype host_call = TerraformTflint LanguageClient TelemetryReporter

datatype Disposable = CommandDisposable nat

record CommandRegistry =
  reg_commands :: "(string \<times> command_handler) list"
  reg_disposed :: "nat list"

definition registerCommand ::
    "string \<Rightarrow> command_handler \<Rightarrow> CommandRegistry \<Rightarrow> Disposable \<times> CommandRegistry" where
  "registerCommand name handler reg =
     (CommandDisposable (length (reg_commands reg)),
      reg\<lparr> reg_commands := reg_commands reg @ [(name, handler)] \<rparr>)"

definition dispose_command :: "Disposable \<Rightarrow> CommandRegistry \<Rightarrow> CommandRegistry" where
  "dispose_command d reg =
     (case d of CommandDisposable n \<Rightarrow> reg\<lparr> reg_disposed := reg_disposed reg @ [n] \<rparr>)"

fun invoke_handler :: "command_handler \<Rightarrow> host_call list" where
  "invoke_handler (TflintHandler client reporter) = [TerraformTflint client reporter]"

record TFLintCommands =
  tfl_client :: LanguageClient
  tfl_reporter :: TelemetryReporter
  tfl_commands :: "Disposable list"

definition new_TFLintCommands ::
    "LanguageClient \<Rightarrow> TelemetryReporter \<Rightarrow> CommandRegistry \<Rightarrow>
     TFLintCommands \<times> CommandRegistry" where
  "new_TFLintCommands client reporter reg =
     (let (d, reg) = registerCommand ''terraform.tflint'' (TflintHandler client reporter) reg
      in (\<lparr> tfl_client = client, tfl_reporter = reporter, tfl_commands = [d] \<rparr>, reg))"

text \<open>\<open>this.commands.forEach((c) => c.dispose())\<close>.\<close>

definition TFLintCommands_dispose :: "TFLintCommands \<Rightarrow> CommandRegistry \<Rightarrow> CommandRegistry" where
  "TFLintCommands_dispose this reg = foldl (\<lambda>r c. dispose_command c r) reg (tfl_commands this)"

section \<open>Definitions the properties are stated with\<close>

text \<open>
  The lookup as the specification words it: the first element whose type is the
  expected one and whose id is the referenced id; undefined when the referenced
  id is absent or no element matches.
\<close>

fun first_referenced ::
    "string \<Rightarrow> string option \<Rightarrow> IncludedObject list \<Rightarrow> IncludedObject option" where
  "first_referenced ty None xs = None"
| "first_referenced ty (Some i) [] = None"
| "first_referenced ty (Some i) (x # xs) =
     (if inc_type x = ty \<and> inc_id x = i then Some x else first_referenced ty (Some i) xs)"

text \<open>
  The lookup functions the module declares (lines 287-335), in the order of the
  source, what each is called with and what kind of value each returns.
\<close>

datatype lookup_helper =
    FindConfigurationVersionAttributes
  | FindPlanAttributes
  | FindApplyAttributes
  | FindCreatedByAttributes
  | FindIngressAttributes

definition lookup_helpers :: "lookup_helper list" where
  "lookup_helpers =
     [FindConfigurationVersionAttributes, FindPlanAttributes, FindApplyAttributes,
      FindCreatedByAttributes, FindIngressAttributes]"

datatype lookup_value = WholeObject IncludedObject | AttributesOf attributes

fun call_lookup ::
    "lookup_helper \<Rightarrow> IncludedObject list \<Rightarrow> Run \<Rightarrow> ConfigurationVersion \<Rightarrow>
     lookup_value option" where
  "call_lookup FindConfigurationVersionAttributes included run cfgVersion =
     map_option WholeObject (findConfigurationVersionAttributes included run)"
| "call_lookup FindPlanAttributes included run cfgVersion =
     map_option AttributesOf (findPlanAttributes included run)"
| "call_lookup FindApplyAttributes included run cfgVersion =
     map_option AttributesOf (findApplyAttributes included run)"
| "call_lookup FindCreatedByAttributes included run cfgVersion =
     map_option AttributesOf (findCreatedByAttributes included run)"
| "call_lookup FindIngressAttributes included run cfgVersion =
     map_option AttributesOf (findIngressAttributes included cfgVersion)"

text \<open>
  The gate of the plan fields as claim C8 words it: the run has a plan
  relationship, and the plan it refers to is among \<open>included\<close> with status
  errored, canceled or finished. Likewise for the apply.
\<close>

definition plan_qualifies :: "IncludedObject list option \<Rightarrow> Run \<Rightarrow> bool" where
  "plan_qualifies included_opt run =
     (case included_opt of
        None \<Rightarrow> False
      | Some included \<Rightarrow>
          rel_plan (run_relationships run) \<noteq> None \<and>
          (case first_referenced ''plans''
                  (chain_data_id (rel_plan (run_relationships run))) included of
             None \<Rightarrow> False
           | Some obj \<Rightarrow>
               att_status (inc_attributes obj) \<in> {''errored'', ''canceled'', ''finished''}))"

definition apply_qualifies :: "IncludedObject list option \<Rightarrow> Run \<Rightarrow> bool" where
  "apply_qualifies included_opt run =
     (case included_opt of
        None \<Rightarrow> False
      | Some included \<Rightarrow>
          rel_apply (run_relationships run) \<noteq> None \<and>
          (case first_referenced ''applies''
                  (chain_data_id (rel_apply (run_relationships run))) included of
             None \<Rightarrow> False
           | Some obj \<Rightarrow>
               att_status (inc_attributes obj) \<in> {''errored'', ''canceled'', ''finished''}))"

text \<open>The context value carries the plan marker, the apply marker.\<close>

definition has_plan_marker :: "string option \<Rightarrow> bool" where
  "has_plan_marker cv = (case cv of None \<Rightarrow> False | Some s \<Rightarrow> prefix ''hasPlan'' s)"

definition has_apply_marker :: "string option \<Rightarrow> bool" where
  "has_apply_marker cv = (case cv of None \<Rightarrow> False | Some s \<Rightarrow> suffix ''hasApply'' s)"

text \<open>The requests to the remote API among the calls made.\<close>

definition is_ListRuns :: "effect \<Rightarrow> bool" where
  "is_ListRuns c = (case c of ListRuns request \<Rightarrow> True | _ \<Rightarrow> False)"

text \<open>A registration has been disposed of.\<close>

definition is_disposed :: "Disposable \<Rightarrow> CommandRegistry \<Rightarrow> bool" where
  "is_disposed d reg = (case d of CommandDisposable n \<Rightarrow> n \<in> set (reg_disposed reg))"

section \<open>Sample inputs\<close>

definition sample_attributes :: "string \<Rightarrow> attributes" where
  "sample_attributes st =
     \<lparr> att_status = st, att_avatar_url = ''https://a/u.png'', att_username = ''alice'',
       att_sender_avatar_url = ''https://a/s.png'', att_sender_username = ''bob'',
       att_commit_sha = ''0123456789abcdef'', att_branch = ''main'',
       att_identifier = ''org/repo'', att_clone_url = ''https://g/org/repo.git'',
       att_commit_url = ''https://g/org/repo/commit/0123456789abcdef'',
       att_commit_message = ''fix''  @ [CHR ''\<newline>''] @ ''details'',
       att_source = Some ''tfe-api'' \<rparr>"

definition ref_to :: "string \<Rightarrow> relationship option" where
  "ref_to i = Some \<lparr> rel_data = Some \<lparr> ref_id = Some i \<rparr> \<rparr>"

definition sample_object :: "string \<Rightarrow> string \<Rightarrow> string \<Rightarrow> IncludedObject" where
  "sample_object ty i st =
     \<lparr> inc_type = ty, inc_id = i, inc_attributes = sample_attributes st,
       inc_ingress_attributes = ref_to ''ia-1'' \<rparr>"

definition sample_included :: "IncludedObject list" where
  "sample_included =
     [sample_object ''users'' ''user-1'' [],
      sample_object ''plans'' ''plan-1'' ''finished'',
      sample_object ''plans'' ''plan-1'' ''errored'',
      sample_object ''applies'' ''apply-1'' ''canceled'',
      sample_object ''configuration-versions'' ''cv-1'' [],
      sample_object ''ingress-attributes'' ''ia-1'' []]"

definition sample_run_attributes :: RunAttributes where
  "sample_run_attributes =
     \<lparr> run_message = ''Triggered via API'', run_status = ''applied'',
       run_trigger_reason = ''manual'', run_created_at = ''2023-09-01T10:00:00Z'',
       run_source = ''tfe-api'' \<rparr>"

definition sample_run :: Run where
  "sample_run =
     \<lparr> run_id = ''run-1'', run_attributes = sample_run_attributes,
       run_relationships =
         \<lparr> rel_plan = ref_to ''plan-1'', rel_apply = ref_to ''apply-1'',
           rel_configuration_version = ref_to ''cv-1'',
           rel_created_by = ref_to ''user-1'' \<rparr> \<rparr>"

definition sample_workspace :: WorkspaceTreeItem where
  "sample_workspace =
     \<lparr> ws_id = ''ws-1'',
       ws_attributes = \<lparr> ws_name = ''prod'', ws_execution_mode = ''remote'' \<rparr> \<rparr>"

definition sample_externals :: externals where
  "sample_externals =
     \<lparr> RelativeTimeFormat = (\<lambda>t. ''2 days ago''),
       TRIGGER_REASON = (\<lambda>k. if k = ''manual'' then Some ''Manually triggered'' else None),
       RUN_SOURCE = (\<lambda>k. if k = ''tfe-api'' then Some ''API'' else None),
       CONFIGURATION_SOURCE = (\<lambda>k. if k = ''tfe-api'' then Some ''API'' else None),
       GetRunStatusIcon = (\<lambda>st. \<lparr> icon_id = ''pass'' \<rparr>),
       GetRunStatusMessage = (\<lambda>st. st),
       apiErrorsToString = concat \<rparr>"

definition sample_provider :: RunTreeDataProvider where
  "sample_provider =
     \<lparr> prov_activeWorkspace = Some sample_workspace,
       prov_ctx = \<lparr> ctx_workspaceState =
                     (\<lambda>k. if k = ''terraform.cloud.organization'' then Some ''acme'' else None),
                   ctx_subscriptions = [] \<rparr>,
       prov_reporter = TelemetryReporter 0,
       prov_outputChannel = OutputChannel 0 \<rparr>"

definition sample_host :: "(thrown + RunsResponse) \<Rightarrow> host" where
  "sample_host answer =
     \<lparr> host_session = Some \<lparr> session_access_token = ''token'' \<rparr>,
       host_listRuns = (\<lambda>request. answer) \<rparr>"

definition sample_page :: RunsResponse where
  "sample_page =
     \<lparr> runs_data = [sample_run], runs_included = Some sample_included,
       runs_total_count = 1 \<rparr>"

text \<open>A page whose plan is still running while its apply has finished.\<close>

definition sample_included_running_plan :: "IncludedObject list" where
  "sample_included_running_plan =
     [sample_object ''plans'' ''plan-1'' ''running'',
      sample_object ''applies'' ''apply-1'' ''finished'']"

section \<open>Properties of the lookup helpers\<close>

lemma find_first_referenced:
  "List.find (\<lambda>inc. inc_type inc = ty \<and> strict_eq (inc_id inc) r) xs = first_referenced ty r xs"
proof (cases r)
  case None
  then show ?thesis by (induction xs) (simp_all add: strict_eq_def)
next
  case (Some i)
  then show ?thesis by (induction xs) (auto simp: strict_eq_def)
qed

text \<open>
  \<open>first_referenced\<close> is the first match by position: the element at some index
  \<open>k\<close> that matches, with no match before \<open>k\<close>; and None exactly when nothing
  matches.
\<close>

lemma first_referenced_Some_iff:
  "first_referenced ty r xs = Some x \<longleftrightarrow>
     (\<exists>k<length xs. xs ! k = x \<and> inc_type x = ty \<and> r = Some (inc_id x) \<and>
        (\<forall>j<k. \<not> (inc_type (xs ! j) = ty \<and> r = Some (inc_id (xs ! j)))))"
  unfolding find_first_referenced[symmetric] find_Some_iff strict_eq_def by auto

lemma first_referenced_None_iff:
  "first_referenced ty r xs = None \<longleftrightarrow>
     (\<forall>x\<in>set xs. \<not> (inc_type x = ty \<and> r = Some (inc_id x)))"
  unfolding find_first_referenced[symmetric] find_None_iff strict_eq_def by auto

lemma chain_data_id_None_iff:
  "chain_data_id rel = None \<longleftrightarrow>
     rel = None \<or> (\<exists>r. rel = Some r \<and> (rel_data r = None \<or>
        (\<exists>d. rel_data r = Some d \<and> ref_id d = None)))"
  by (auto simp: chain_data_id_def split: option.splits)

text \<open>
  C1, as stated: every lookup helper returns the first element of \<open>included\<close>
  whose type is the helper's and whose id is the referenced one. This fails for
  four of the five helpers, which return the \<open>attributes\<close> of that element and
  not the element: on the sample page the first plan with id \<open>plan-1\<close> is found,
  and \<open>findPlanAttributes\<close> returns its attributes object.
\<close>

theorem lookup_returns_element_counterexample:
  "first_referenced ''plans'' (chain_data_id (rel_plan (run_relationships sample_run)))
       sample_included = Some (sample_object ''plans'' ''plan-1'' ''finished'')
   \<and> call_lookup FindPlanAttributes sample_included sample_run
       (sample_object ''configuration-versions'' ''cv-1'' [])
     = Some (AttributesOf (sample_attributes ''finished''))
   \<and> call_lookup FindPlanAttributes sample_included sample_run
       (sample_object ''configuration-versions'' ''cv-1'' [])
     \<noteq> Some (WholeObject (sample_object ''plans'' ''plan-1'' ''finished''))"
  by (simp add: findPlanAttributes_def sample_included_def sample_object_def sample_run_def
      ref_to_def chain_data_id_def strict_eq_def)

text \<open>
  C1, amended: for every \<open>included\<close> array, run and configuration version, each
  helper is decided by one pass over the array that stops at the first element
  whose type is the helper's resource type and whose id is the id referenced
  from the relationship (of the run; of the configuration version for ingress).
  \<open>findConfigurationVersionAttributes\<close> returns that element, the other four
  return its attributes, and each returns undefined when there is no such
  element. The referenced id is undefined, and so nothing matches, when the
  relationship, its data or its id is absent.
\<close>

theorem lookup_helpers_first_match:
  "findConfigurationVersionAttributes included run =
     first_referenced ''configuration-versions''
       (chain_data_id (rel_configuration_version (run_relationships run))) included
   \<and> findPlanAttributes included run =
     map_option inc_attributes
       (first_referenced ''plans'' (chain_data_id (rel_plan (run_relationships run))) included)
   \<and> findApplyAttributes included run =
     map_option inc_attributes
       (first_referenced ''applies'' (chain_data_id (rel_apply (run_relationships run))) included)
   \<and> findCreatedByAttributes included run =
     map_option inc_attributes
       (first_referenced ''users'' (chain_data_id (rel_created_by (run_relationships run)))
          included)
   \<and> findIngressAttributes included cfgVersion =
     map_option inc_attributes
       (first_referenced ''ingress-attributes''
          (chain_data_id (inc_ingress_attributes cfgVersion)) included)
   \<and> first_referenced ty None included = None
   \<and> chain_data_id None = None
   \<and> chain_data_id (Some \<lparr> rel_data = None \<rparr>) = None
   \<and> chain_data_id (Some \<lparr> rel_data = Some \<lparr> ref_id = None \<rparr> \<rparr>) = None
   \<and> chain_data_id (Some \<lparr> rel_data = Some \<lparr> ref_id = Some i \<rparr> \<rparr>) = Some i"
  by (simp add: findConfigurationVersionAttributes_def findPlanAttributes_def
      findApplyAttributes_def findCreatedByAttributes_def findIngressAttributes_def
      find_first_referenced chain_data_id_def split: option.split)

text \<open>
  C2, as stated: there are exactly four lookup helpers, each taking the reference
  from a run's relationships and returning the matched object's attributes. The
  module declares five; \<open>findConfigurationVersionAttributes\<close> returns the matched
  object itself; and \<open>findIngressAttributes\<close> takes the reference from the
  configuration version it is given, so with the same run it finds the ingress
  attributes or nothing as that configuration version says.
\<close>

theorem four_helpers_counterexample:
  "length lookup_helpers = 5
   \<and> call_lookup FindConfigurationVersionAttributes sample_included sample_run
       (sample_object ''configuration-versions'' ''cv-1'' [])
     = Some (WholeObject (sample_object ''configuration-versions'' ''cv-1'' []))
   \<and> call_lookup FindIngressAttributes sample_included sample_run
       (sample_object ''configuration-versions'' ''cv-1'' [])
     = Some (AttributesOf (sample_attributes []))
   \<and> call_lookup FindIngressAttributes sample_included sample_run
       ((sample_object ''configuration-versions'' ''cv-1'' [])
          \<lparr> inc_ingress_attributes := None \<rparr>)
     = None"
  by (simp add: lookup_helpers_def findConfigurationVersionAttributes_def
      findIngressAttributes_def sample_included_def sample_object_def sample_run_def
      ref_to_def chain_data_id_def strict_eq_def)

text \<open>
  C2, amended: the lookup helpers are five functions of their arguments alone.
  Each scans \<open>included\<close> for the (type, id) pair its relationship refers to:
  the plan, apply and created-by helpers read the run's relationships and return
  the matched object's attributes; the configuration-version helper reads the
  run's relationships and returns the matched object; the ingress helper reads
  the configuration version's relationships and returns the matched object's
  attributes.
\<close>

theorem five_lookup_helpers:
  "lookup_helpers =
     [FindConfigurationVersionAttributes, FindPlanAttributes, FindApplyAttributes,
      FindCreatedByAttributes, FindIngressAttributes]
   \<and> distinct lookup_helpers \<and> set lookup_helpers = UNIV
   \<and> call_lookup h included run cfgVersion =
       (case h of
          FindConfigurationVersionAttributes \<Rightarrow>
            map_option WholeObject
              (first_referenced ''configuration-versions''
                 (chain_data_id (rel_configuration_version (run_relationships run))) included)
        | FindPlanAttributes \<Rightarrow>
            map_option (\<lambda>obj. AttributesOf (inc_attributes obj))
              (first_referenced ''plans''
                 (chain_data_id (rel_plan (run_relationships run))) included)
        | FindApplyAttributes \<Rightarrow>
            map_option (\<lambda>obj. AttributesOf (inc_attributes obj))
              (first_referenced ''applies''
                 (chain_data_id (rel_apply (run_relationships run))) included)
        | FindCreatedByAttributes \<Rightarrow>
            map_option (\<lambda>obj. AttributesOf (inc_attributes obj))
              (first_referenced ''users''
                 (chain_data_id (rel_created_by (run_relationships run))) included)
        | FindIngressAttributes \<Rightarrow>
            map_option (\<lambda>obj. AttributesOf (inc_attributes obj))
              (first_referenced ''ingress-attributes''
                 (chain_data_id (inc_ingress_attributes cfgVersion)) included))"
proof -
  have "set lookup_helpers = UNIV"
  proof
    show "UNIV \<subseteq> set lookup_helpers"
    proof
      fix x :: lookup_helper
      show "x \<in> set lookup_helpers" by (cases x) (simp_all add: lookup_helpers_def)
    qed
  qed simp
  moreover have "distinct lookup_helpers" by (simp add: lookup_helpers_def)
  ultimately show ?thesis
    by (cases h)
       (simp_all add: lookup_helpers_def findConfigurationVersionAttributes_def
          findPlanAttributes_def findApplyAttributes_def findCreatedByAttributes_def
          findIngressAttributes_def find_first_referenced option.map_comp comp_def
          split: option.split)
qed

section \<open>Properties of the catch block\<close>

lemma getRuns_catch_items: "snd (getRuns_catch ext active workspace error) = []"
  by (simp add: getRuns_catch_def Let_def)

lemma getRuns_catch_no_request:
  "filter is_ListRuns (fst (getRuns_catch ext active workspace error)) = []"
  by (simp add: getRuns_catch_def Let_def is_ListRuns_def)

text \<open>
  C3, as stated: the catch handler distinguishes exactly three known error
  shapes and there is no other failure handling. The three classes the handler
  tests for are \<open>ZodiosError\<close>, the Axios error and \<open>Error\<close>. A thrown string
  and any other thrown value are instances of none of them, yet both are
  handled, and the handler tells them apart: the string is appended to the
  message shown.
\<close>

theorem catch_three_shapes_counterexample:
  "\<not> instanceof_ZodiosError (ThrownString ''boom'')
   \<and> \<not> isAxiosError (ThrownString ''boom'')
   \<and> \<not> instanceof_Error (ThrownString ''boom'')
   \<and> \<not> instanceof_ZodiosError ThrownOther
   \<and> \<not> isAxiosError ThrownOther
   \<and> \<not> instanceof_Error ThrownOther
   \<and> getRuns_catch sample_externals sample_workspace sample_workspace (ThrownString ''boom'')
       = ([ShowErrorMessage ''Failed to list runs in prod (ws-1): boom''], [])
   \<and> getRuns_catch sample_externals sample_workspace sample_workspace ThrownOther
       = ([ShowErrorMessage ''Failed to list runs in prod (ws-1): ''], [])"
  by (simp add: getRuns_catch_def Let_def instanceof_ZodiosError_def isAxiosError_def
      instanceof_Error_def typeof_string_def response_status_def isErrorFromAlias_def
      string_value_def sample_workspace_def)

text \<open>
  C3, amended: when listing runs fails, the catch handler tells apart a
  \<open>ZodiosError\<close> (passed to \<open>handleZodiosError\<close>), an Axios error with status 401
  (passed to \<open>handleAuthError\<close>), with status 404 (a warning is shown), or
  declared for \<open>listRuns\<close> (the API errors are shown and reported), any other
  \<open>Error\<close> (its message is shown and reported), a thrown string (shown) and any
  other thrown value (the bare message is shown). Every one of these paths
  yields an empty item list, from the handler and so from \<open>getRuns\<close>.
\<close>

theorem catch_paths:
  "snd (getRuns_catch ext active workspace error) = []
   \<and> fst (getRuns_catch ext active workspace error) =
       (let message = ''Failed to list runs in '' @ ws_name (ws_attributes active) @ '' ('' @
                      ws_id workspace @ ''): ''
        in case error of
             ZodiosError m \<Rightarrow> [HandleZodiosError error message]
           | AxiosErr a \<Rightarrow>
               (if ax_response_status a = Some 401 then [HandleAuthError]
                else if ax_response_status a = Some 404
                  then [ShowWarningMessage
                          (''Workspace '' @ ws_name (ws_attributes active) @ '' ('' @
                           ws_id workspace @ '') not found, please pick another one'')]
                else (case ax_alias_errors a of
                        Some errs \<Rightarrow>
                          [ShowErrorMessage (message @ apiErrorsToString ext errs),
                           SendTelemetryException error]
                      | None \<Rightarrow>
                          [ShowErrorMessage (message @ ax_message a),
                           SendTelemetryException error]))
           | OtherError m \<Rightarrow>
               [ShowErrorMessage (message @ m), SendTelemetryException error]
           | ThrownString s \<Rightarrow> [ShowErrorMessage (message @ s)]
           | ThrownOther \<Rightarrow> [ShowErrorMessage message])
   \<and> (workspaceState_get (prov_ctx this) ''terraform.cloud.organization'' [] \<noteq> [] \<and>
      host_session h \<noteq> None \<and> prov_activeWorkspace this = Some active \<and>
      host_listRuns h (listRuns_request workspace) = Inl error
      \<longrightarrow> getRuns ext h this workspace =
            ([GetSession, ListRuns (listRuns_request workspace)] @
               fst (getRuns_catch ext active workspace error), []))"
proof (intro conjI impI)
  show "snd (getRuns_catch ext active workspace error) = []"
    by (rule getRuns_catch_items)
next
  show "fst (getRuns_catch ext active workspace error) =
       (let message = ''Failed to list runs in '' @ ws_name (ws_attributes active) @ '' ('' @
                      ws_id workspace @ ''): ''
        in case error of
             ZodiosError m \<Rightarrow> [HandleZodiosError error message]
           | AxiosErr a \<Rightarrow>
               (if ax_response_status a = Some 401 then [HandleAuthError]
                else if ax_response_status a = Some 404
                  then [ShowWarningMessage
                          (''Workspace '' @ ws_name (ws_attributes active) @ '' ('' @
                           ws_id workspace @ '') not found, please pick another one'')]
                else (case ax_alias_errors a of
                        Some errs \<Rightarrow>
                          [ShowErrorMessage (message @ apiErrorsToString ext errs),
                           SendTelemetryException error]
                      | None \<Rightarrow>
                          [ShowErrorMessage (message @ ax_message a),
                           SendTelemetryException error]))
           | OtherError m \<Rightarrow>
               [ShowErrorMessage (message @ m), SendTelemetryException error]
           | ThrownString s \<Rightarrow> [ShowErrorMessage (message @ s)]
           | ThrownOther \<Rightarrow> [ShowErrorMessage message])"
    by (cases error)
       (simp_all add: getRuns_catch_def Let_def instanceof_ZodiosError_def isAxiosError_def
          instanceof_Error_def typeof_string_def response_status_def isErrorFromAlias_def
          response_data_errors_def error_message_def string_value_def split: option.split)
next
  assume a: "workspaceState_get (prov_ctx this) ''terraform.cloud.organization'' [] \<noteq> [] \<and>
      host_session h \<noteq> None \<and> prov_activeWorkspace this = Some active \<and>
      host_listRuns h (listRuns_request workspace) = Inl error"
  then obtain s where s: "host_session h = Some s" by auto
  obtain calls its where c: "getRuns_catch ext active workspace error = (calls, its)"
    by (cases "getRuns_catch ext active workspace error")
  with getRuns_catch_items [of ext active workspace error] have "its = []" by simp
  with a s c show "getRuns ext h this workspace =
            ([GetSession, ListRuns (listRuns_request workspace)] @
               fst (getRuns_catch ext active workspace error), [])"
    by (simp add: getRuns_def Let_def)
qed

theorem catch_paths_witness:
  "workspaceState_get (prov_ctx sample_provider) ''terraform.cloud.organization'' [] \<noteq> []
   \<and> host_session (sample_host (Inl (OtherError ''timeout''))) \<noteq> None
   \<and> prov_activeWorkspace sample_provider = Some sample_workspace
   \<and> host_listRuns (sample_host (Inl (OtherError ''timeout''))) (listRuns_request sample_workspace)
       = Inl (OtherError ''timeout'')
   \<and> getRuns sample_externals (sample_host (Inl (OtherError ''timeout''))) sample_provider
       sample_workspace
     = ([GetSession, ListRuns (listRuns_request sample_workspace),
         ShowErrorMessage ''Failed to list runs in prod (ws-1): timeout'',
         SendTelemetryException (OtherError ''timeout'')], [])"
  using catch_paths [of sample_externals sample_workspace sample_workspace
      "OtherError ''timeout''" sample_provider "sample_host (Inl (OtherError ''timeout''))"]
  by (simp add: sample_provider_def sample_host_def workspaceState_get_def sample_workspace_def)

section \<open>Properties of the markdown formatter\<close>

lemma sample_run_item:
  "run_item sample_externals sample_workspace (Some sample_included) sample_run =
      (new_RunTreeItem sample_externals ''run-1'' sample_run_attributes sample_workspace)
        \<lparr> rti_contextValue := Some ''hasPlanhasApply'',
          rti_createdBy := Some (sample_attributes []),
          rti_configurationVersion := Some (sample_attributes []),
          rti_ingressAttributes := Some (sample_attributes []),
          rti_planAttributes := Some (sample_attributes ''finished''),
          rti_planId := Some ''plan-1'',
          rti_applyAttributes := Some (sample_attributes ''canceled''),
          rti_applyId := Some ''apply-1'' \<rparr>"
  by (simp add: run_item_def Let_def new_RunTreeItem_def sample_included_def sample_run_def
      sample_object_def ref_to_def chain_data_id_def strict_eq_def gated_statuses_def
      findCreatedByAttributes_def findConfigurationVersionAttributes_def
      findIngressAttributes_def findPlanAttributes_def findApplyAttributes_def
      sample_attributes_def js_string_def)

lemmas markdown_defs =
  runMarkdown_def Let_def appendMarkdown_def new_MarkdownString_def
  truthy_def js_string_def creator_markdown_def sender_markdown_def
  summary_markdown_def table_head_markdown_def vcs_configuration_markdown_def
  plain_configuration_markdown_def trailer_markdown_def slice_0_8_def first_line_def

lemmas sample_item_defs =
  new_RunTreeItem_def sample_attributes_def sample_externals_def
  sample_run_attributes_def sample_workspace_def

text \<open>
  C4: the text of the tooltip, written out. It starts with the creator's avatar
  image and bold username when \<open>createdBy\<close> is resolved, otherwise with the VCS
  sender's avatar image and bold username when \<open>ingressAttributes\<close> is resolved,
  otherwise with neither. After the summary line and the head of the table, it
  has the configuration row (source, sender's avatar and username, branch,
  repository link) and the commit row (short sha linked to the commit, first
  line of the message) when \<open>ingressAttributes\<close> and a \<open>configurationVersion\<close>
  with a defined, non-empty source are both resolved, and the single row
  \<open>From <run source>\<close> otherwise; the trigger and execution-mode rows end it.
  The three sample items show the three openings and both kinds of
  configuration row.
\<close>

theorem runMarkdown_branches:
  \<open>md_value (runMarkdown ext item) =
     (case rti_createdBy item of
        Some createdBy \<Rightarrow>
          ''<img src="'' @ att_avatar_url createdBy @ ''" width="20"> **'' @
          att_username createdBy @ ''**''
      | None \<Rightarrow>
          (case rti_ingressAttributes item of
             Some ingressAttributes \<Rightarrow>
               ''<img src="'' @ att_sender_avatar_url ingressAttributes @
               ''" width="20"> **'' @ att_sender_username ingressAttributes @ ''**''
           | None \<Rightarrow> []))
     @ '' '' @
       (case TRIGGER_REASON ext (run_trigger_reason (rti_attributes item)) of
          None \<Rightarrow> ''undefined'' | Some reason \<Rightarrow> reason)
     @ '' from '' @
       (case RUN_SOURCE ext (run_source (rti_attributes item)) of
          None \<Rightarrow> ''undefined'' | Some src \<Rightarrow> src)
     @ '' '' @ RelativeTimeFormat ext (run_created_at (rti_attributes item))
     @ ''\<newline>\<newline>-----\<newline>_____\<newline>| | |\<newline>-:|--\<newline>| **Run ID**   | `'' @ rti_id item @
       ''` |\<newline>| **Status** | $('' @
       icon_id (GetRunStatusIcon ext (run_status (rti_attributes item))) @ '') '' @
       GetRunStatusMessage ext (run_status (rti_attributes item)) @ '' |\<newline>''
     @ (if rti_ingressAttributes item \<noteq> None \<and> rti_configurationVersion item \<noteq> None \<and>
           att_source (the (rti_configurationVersion item)) \<noteq> None \<and>
           the (att_source (the (rti_configurationVersion item))) \<noteq> []
        then ''| **Configuration** | From '' @
             (case CONFIGURATION_SOURCE ext
                     (the (att_source (the (rti_configurationVersion item)))) of
                None \<Rightarrow> ''undefined'' | Some src \<Rightarrow> src) @
             '' by <img src="'' @
             att_sender_avatar_url (the (rti_ingressAttributes item)) @ ''" width="20"> '' @
             att_sender_username (the (rti_ingressAttributes item)) @ '' **Branch** '' @
             att_branch (the (rti_ingressAttributes item)) @ '' **Repo** ['' @
             att_identifier (the (rti_ingressAttributes item)) @ '']('' @
             att_clone_url (the (rti_ingressAttributes item)) @
             '') |\<newline>| **Commit** | ['' @
             take 8 (att_commit_sha (the (rti_ingressAttributes item))) @ '']('' @
             att_commit_url (the (rti_ingressAttributes item)) @ ''): '' @
             takeWhile (\<lambda>c. c \<noteq> CHR ''\<newline>'')
               (att_commit_message (the (rti_ingressAttributes item))) @ '' |\<newline>''
        else ''| **Configuration** | From '' @ run_source (rti_attributes item) @ '' |\<newline>'')
     @ ''| **Trigger** | '' @
       (case TRIGGER_REASON ext (run_trigger_reason (rti_attributes item)) of
          None \<Rightarrow> ''undefined'' | Some reason \<Rightarrow> reason)
     @ '' |\<newline>| **Execution Mode** | '' @
       ws_execution_mode (ws_attributes (rti_workspace item)) @ '' |\<newline>''
   \<and> md_supportHtml (runMarkdown ext item) \<and> md_supportThemeIcons (runMarkdown ext item)
   \<and> md_value (runMarkdown sample_externals
         (run_item sample_externals sample_workspace (Some sample_included) sample_run)) =
       ''<img src="https://a/u.png" width="20"> **alice** Manually triggered from API 2 days ago\<newline>\<newline>-----\<newline>_____\<newline>| | |\<newline>-:|--\<newline>| **Run ID**   | `run-1` |\<newline>| **Status** | $(pass) applied |\<newline>| **Configuration** | From API by <img src="https://a/s.png" width="20"> bob **Branch** main **Repo** [org/repo](https://g/org/repo.git) |\<newline>| **Commit** | [01234567](https://g/org/repo/commit/0123456789abcdef): fix |\<newline>| **Trigger** | Manually triggered |\<newline>| **Execution Mode** | remote |\<newline>''
   \<and> md_value (runMarkdown sample_externals
         ((new_RunTreeItem sample_externals ''run-1'' sample_run_attributes sample_workspace)
            \<lparr> rti_ingressAttributes := Some (sample_attributes []) \<rparr>)) =
       ''<img src="https://a/s.png" width="20"> **bob** Manually triggered from API 2 days ago\<newline>\<newline>-----\<newline>_____\<newline>| | |\<newline>-:|--\<newline>| **Run ID**   | `run-1` |\<newline>| **Status** | $(pass) applied |\<newline>| **Configuration** | From tfe-api |\<newline>| **Trigger** | Manually triggered |\<newline>| **Execution Mode** | remote |\<newline>''
   \<and> md_value (runMarkdown sample_externals
         (new_RunTreeItem sample_externals ''run-1'' sample_run_attributes sample_workspace)) =
       '' Manually triggered from API 2 days ago\<newline>\<newline>-----\<newline>_____\<newline>| | |\<newline>-:|--\<newline>| **Run ID**   | `run-1` |\<newline>| **Status** | $(pass) applied |\<newline>| **Configuration** | From tfe-api |\<newline>| **Trigger** | Manually triggered |\<newline>| **Execution Mode** | remote |\<newline>''\<close>
  apply (intro conjI)
  subgoal
    by (cases "rti_createdBy item"; cases "rti_ingressAttributes item";
        cases "rti_configurationVersion item";
        cases "att_source (the (rti_configurationVersion item))")
       (simp_all add: markdown_defs)
  subgoal
    by (simp add: runMarkdown_def Let_def appendMarkdown_def new_MarkdownString_def
        split: option.split)
  subgoal
    by (simp add: runMarkdown_def Let_def appendMarkdown_def new_MarkdownString_def
        split: option.split)
  subgoal by (simp only: sample_run_item) (simp add: markdown_defs sample_item_defs)
  subgoal by (simp add: markdown_defs sample_item_defs)
  subgoal by (simp add: markdown_defs sample_item_defs)
  done

section \<open>Properties of the run listing\<close>

lemma getRuns_loop_map:
  "getRuns_loop ext active included_opt runs items =
     items @ map (run_item ext active included_opt) runs"
  by (induction runs arbitrary: items) simp_all

lemma getRuns_success:
  assumes "workspaceState_get (prov_ctx this) ''terraform.cloud.organization'' [] \<noteq> []"
    and "host_session h \<noteq> None"
    and "prov_activeWorkspace this = Some active"
    and "host_listRuns h (listRuns_request workspace) = Inr runs"
  shows "getRuns ext h this workspace =
           ([GetSession, ListRuns (listRuns_request workspace),
             SendTelemetryEvent ''tfc-fetch-runs'' (runs_total_count runs)],
            if runs_data runs = [] then [PlainItem (empty_item active)]
            else map (\<lambda>run. RunElement (run_item ext active (runs_included runs) run))
                   (runs_data runs))"
proof -
  from assms(2) obtain s where "host_session h = Some s" by auto
  with assms show ?thesis
    by (simp add: getRuns_def Let_def getRuns_loop_map comp_def)
qed

lemma getRuns_requests:
  "filter is_ListRuns (fst (getRuns ext h this workspace)) =
     (if workspaceState_get (prov_ctx this) ''terraform.cloud.organization'' [] = [] \<or>
         host_session h = None \<or> prov_activeWorkspace this = None
      then []
      else [ListRuns (listRuns_request workspace)])"
  by (simp add: getRuns_def Let_def case_prod_beta getRuns_catch_no_request is_ListRuns_def
      split: option.split sum.split)

text \<open>
  C5: whatever the outcome, \<open>getRuns\<close> sends at most one request to the API, and
  exactly one when an organization is stored, a session exists and a workspace
  is active: for the workspace it was called with, page size 100, with plan,
  apply, configuration_version.ingress_attributes and created_by included. After
  \<open>refresh(workspaceItem)\<close>, the host's call of \<open>getChildren()\<close> sends that one
  request for \<open>workspaceItem\<close>.
\<close>

theorem refresh_fetch_request:
  "filter is_ListRuns (fst (getRuns ext h this workspace)) =
     (if workspaceState_get (prov_ctx this) ''terraform.cloud.organization'' [] = [] \<or>
         host_session h = None \<or> prov_activeWorkspace this = None
      then []
      else [ListRuns \<lparr> req_workspace_id = ws_id workspace, req_page_size = 100,
                       req_include = [''plan'', ''apply'',
                         ''configuration_version.ingress_attributes'', ''created_by''] \<rparr>])
   \<and> (workspaceState_get (prov_ctx this) ''terraform.cloud.organization'' [] \<noteq> [] \<and>
      host_session h \<noteq> None
      \<longrightarrow> filter is_ListRuns
            (fst (getChildren ext h (snd (refresh (Some workspaceItem) this)) None)) =
          [ListRuns \<lparr> req_workspace_id = ws_id workspaceItem, req_page_size = 100,
                      req_include = [''plan'', ''apply'',
                        ''configuration_version.ingress_attributes'', ''created_by''] \<rparr>])"
  by (simp add: getRuns_requests listRuns_request_def getChildren_def refresh_def Let_def)

theorem refresh_fetch_request_witness:
  "workspaceState_get (prov_ctx (sample_provider\<lparr> prov_activeWorkspace := None \<rparr>))
       ''terraform.cloud.organization'' [] \<noteq> []
   \<and> host_session (sample_host (Inr sample_page)) \<noteq> None
   \<and> filter is_ListRuns
       (fst (getChildren sample_externals (sample_host (Inr sample_page))
               (snd (refresh (Some sample_workspace)
                       (sample_provider\<lparr> prov_activeWorkspace := None \<rparr>))) None)) =
     [ListRuns \<lparr> req_workspace_id = ''ws-1'', req_page_size = 100,
                 req_include = [''plan'', ''apply'',
                   ''configuration_version.ingress_attributes'', ''created_by''] \<rparr>]"
  using refresh_fetch_request [where this = "sample_provider\<lparr> prov_activeWorkspace := None \<rparr>"
      and h = "sample_host (Inr sample_page)" and ext = sample_externals
      and workspaceItem = sample_workspace]
  by (simp add: sample_provider_def sample_host_def workspaceState_get_def sample_workspace_def)

text \<open>
  C10: at the tree interface, \<open>getChildren()\<close> returns the empty list, with no
  call at all, when no workspace is active, and otherwise returns what
  \<open>getRuns\<close> returns for the active workspace. \<open>getRuns\<close>, and so
  \<open>getChildren()\<close>, returns the empty list with no call at all when the stored
  organization name is empty, and with no request to the API when there is no
  session. When the request succeeds with zero runs the result, of \<open>getRuns\<close>
  and of \<open>getChildren()\<close>, is the single placeholder item labelled
  \<open>No runs found for <name>\<close>, the name being that of the active workspace.
\<close>

theorem empty_results:
  "(prov_activeWorkspace this = None \<longrightarrow> getChildren ext h this None = ([], []))
   \<and> (workspaceState_get (prov_ctx this) ''terraform.cloud.organization'' [] = []
        \<longrightarrow> getRuns ext h this workspace = ([], []))
   \<and> (host_session h = None
        \<longrightarrow> snd (getRuns ext h this workspace) = [] \<and>
            filter is_ListRuns (fst (getRuns ext h this workspace)) = [])
   \<and> (workspaceState_get (prov_ctx this) ''terraform.cloud.organization'' [] \<noteq> [] \<and>
      host_session h \<noteq> None \<and> prov_activeWorkspace this = Some active \<and>
      host_listRuns h (listRuns_request workspace) = Inr runs \<and> runs_data runs = []
      \<longrightarrow> snd (getRuns ext h this workspace) =
            [PlainItem \<lparr> ti_label = ''No runs found for '' @ ws_name (ws_attributes active),
                         ti_tooltip = ''No runs found for '' @ ws_name (ws_attributes active),
                         ti_contextValue = ''empty'' \<rparr>])
   \<and> (prov_activeWorkspace this = Some active
        \<longrightarrow> getChildren ext h this None = getRuns ext h this active)
   \<and> (workspaceState_get (prov_ctx this) ''terraform.cloud.organization'' [] = []
        \<longrightarrow> getChildren ext h this None = ([], []))
   \<and> (host_session h = None
        \<longrightarrow> snd (getChildren ext h this None) = [] \<and>
            filter is_ListRuns (fst (getChildren ext h this None)) = [])
   \<and> (workspaceState_get (prov_ctx this) ''terraform.cloud.organization'' [] \<noteq> [] \<and>
      host_session h \<noteq> None \<and> prov_activeWorkspace this = Some active \<and>
      host_listRuns h (listRuns_request active) = Inr runs \<and> runs_data runs = []
      \<longrightarrow> getChildren ext h this None =
            ([GetSession,
              ListRuns \<lparr> req_workspace_id = ws_id active, req_page_size = 100,
                         req_include = [''plan'', ''apply'',
                           ''configuration_version.ingress_attributes'', ''created_by''] \<rparr>,
              SendTelemetryEvent ''tfc-fetch-runs'' (runs_total_count runs)],
             [PlainItem \<lparr> ti_label = ''No runs found for '' @ ws_name (ws_attributes active),
                          ti_tooltip = ''No runs found for '' @ ws_name (ws_attributes active),
                          ti_contextValue = ''empty'' \<rparr>]))"
proof -
  have org: "workspaceState_get (prov_ctx this) ''terraform.cloud.organization'' [] = []
      \<Longrightarrow> getRuns ext h this w = ([], [])" for w
    by (simp add: getRuns_def)
  have nosession: "host_session h = None \<Longrightarrow>
      snd (getRuns ext h this w) = [] \<and> filter is_ListRuns (fst (getRuns ext h this w)) = []"
    for w
    by (simp add: getRuns_def Let_def is_ListRuns_def)
  have children: "getChildren ext h this None =
      (case prov_activeWorkspace this of None \<Rightarrow> ([], [])
       | Some a \<Rightarrow> getRuns ext h this a)"
    by (simp add: getChildren_def)
  have empty_page: "workspaceState_get (prov_ctx this) ''terraform.cloud.organization'' [] \<noteq> [] \<and>
      host_session h \<noteq> None \<and> prov_activeWorkspace this = Some active \<and>
      host_listRuns h (listRuns_request w) = Inr runs \<and> runs_data runs = []
      \<Longrightarrow> getRuns ext h this w =
            ([GetSession, ListRuns (listRuns_request w),
              SendTelemetryEvent ''tfc-fetch-runs'' (runs_total_count runs)],
             [PlainItem \<lparr> ti_label = ''No runs found for '' @ ws_name (ws_attributes active),
                          ti_tooltip = ''No runs found for '' @ ws_name (ws_attributes active),
                          ti_contextValue = ''empty'' \<rparr>])" for w
    by (simp add: getRuns_success empty_item_def)
  show ?thesis
    using org nosession empty_page [of workspace] empty_page [of active]
    by (auto simp: children listRuns_request_def split: option.split)
qed

theorem empty_results_witness:
  "prov_activeWorkspace (sample_provider\<lparr> prov_activeWorkspace := None \<rparr>) = None
   \<and> getChildren sample_externals (sample_host (Inr sample_page))
       (sample_provider\<lparr> prov_activeWorkspace := None \<rparr>) None = ([], [])
   \<and> workspaceState_get
       (prov_ctx (sample_provider
          \<lparr> prov_ctx := \<lparr> ctx_workspaceState = (\<lambda>k. None), ctx_subscriptions = [] \<rparr> \<rparr>))
       ''terraform.cloud.organization'' [] = []
   \<and> getRuns sample_externals (sample_host (Inr sample_page))
       (sample_provider
          \<lparr> prov_ctx := \<lparr> ctx_workspaceState = (\<lambda>k. None), ctx_subscriptions = [] \<rparr> \<rparr>)
       sample_workspace = ([], [])
   \<and> getChildren sample_externals (sample_host (Inr sample_page))
       (sample_provider
          \<lparr> prov_ctx := \<lparr> ctx_workspaceState = (\<lambda>k. None), ctx_subscriptions = [] \<rparr> \<rparr>)
       None = ([], [])
   \<and> host_session ((sample_host (Inr sample_page))\<lparr> host_session := None \<rparr>) = None
   \<and> getRuns sample_externals ((sample_host (Inr sample_page))\<lparr> host_session := None \<rparr>)
       sample_provider sample_workspace = ([GetSession], [])
   \<and> getChildren sample_externals ((sample_host (Inr sample_page))\<lparr> host_session := None \<rparr>)
       sample_provider None = ([GetSession], [])
   \<and> workspaceState_get (prov_ctx sample_provider) ''terraform.cloud.organization'' [] \<noteq> []
   \<and> host_session (sample_host (Inr (sample_page\<lparr> runs_data := [] \<rparr>))) \<noteq> None
   \<and> prov_activeWorkspace sample_provider = Some sample_workspace
   \<and> host_listRuns (sample_host (Inr (sample_page\<lparr> runs_data := [] \<rparr>)))
       (listRuns_request sample_workspace) = Inr (sample_page\<lparr> runs_data := [] \<rparr>)
   \<and> runs_data (sample_page\<lparr> runs_data := [] \<rparr>) = []
   \<and> snd (getRuns sample_externals (sample_host (Inr (sample_page\<lparr> runs_data := [] \<rparr>)))
            sample_provider sample_workspace) =
       [PlainItem \<lparr> ti_label = ''No runs found for prod'',
                    ti_tooltip = ''No runs found for prod'', ti_contextValue = ''empty'' \<rparr>]
   \<and> snd (getChildren sample_externals (sample_host (Inr (sample_page\<lparr> runs_data := [] \<rparr>)))
            sample_provider None) =
       [PlainItem \<lparr> ti_label = ''No runs found for prod'',
                    ti_tooltip = ''No runs found for prod'', ti_contextValue = ''empty'' \<rparr>]"
  using
    empty_results [where this = "sample_provider\<lparr> prov_activeWorkspace := None \<rparr>"
      and ext = sample_externals and h = "sample_host (Inr sample_page)"
      and workspace = sample_workspace]
    empty_results [where this = "sample_provider
          \<lparr> prov_ctx := \<lparr> ctx_workspaceState = (\<lambda>k. None), ctx_subscriptions = [] \<rparr> \<rparr>"
      and ext = sample_externals and h = "sample_host (Inr sample_page)"
      and workspace = sample_workspace]
    empty_results [where this = sample_provider and ext = sample_externals
      and h = "(sample_host (Inr sample_page))\<lparr> host_session := None \<rparr>"
      and workspace = sample_workspace and active = sample_workspace]
    empty_results [where this = sample_provider and ext = sample_externals
      and h = "sample_host (Inr (sample_page\<lparr> runs_data := [] \<rparr>))"
      and workspace = sample_workspace and active = sample_workspace
      and runs = "sample_page\<lparr> runs_data := [] \<rparr>"]
  by (simp add: sample_provider_def sample_host_def workspaceState_get_def
      sample_workspace_def getRuns_def getChildren_def)

section \<open>Properties of the loop body\<close>

lemma findPlanAttributes_first:
  "findPlanAttributes included run =
     map_option inc_attributes
       (first_referenced ''plans'' (chain_data_id (rel_plan (run_relationships run))) included)"
  by (simp add: findPlanAttributes_def find_first_referenced split: option.split)

lemma findApplyAttributes_first:
  "findApplyAttributes included run =
     map_option inc_attributes
       (first_referenced ''applies'' (chain_data_id (rel_apply (run_relationships run))) included)"
  by (simp add: findApplyAttributes_def find_first_referenced split: option.split)

lemma first_referenced_ref:
  "first_referenced ty r xs = Some x \<Longrightarrow> r = Some (inc_id x)"
  unfolding first_referenced_Some_iff by auto

lemma run_item_plan_fields:
  "rti_planId (run_item ext active included_opt run) =
     (if plan_qualifies included_opt run
      then chain_data_id (rel_plan (run_relationships run)) else None)
   \<and> rti_planAttributes (run_item ext active included_opt run) =
     (if plan_qualifies included_opt run
      then Option.bind included_opt (\<lambda>included. findPlanAttributes included run) else None)"
  by (auto simp: run_item_def Let_def new_RunTreeItem_def plan_qualifies_def gated_statuses_def
      findPlanAttributes_first split: option.splits)

lemma run_item_apply_fields:
  "rti_applyId (run_item ext active included_opt run) =
     (if apply_qualifies included_opt run
      then chain_data_id (rel_apply (run_relationships run)) else None)
   \<and> rti_applyAttributes (run_item ext active included_opt run) =
     (if apply_qualifies included_opt run
      then Option.bind included_opt (\<lambda>included. findApplyAttributes included run) else None)"
  by (auto simp: run_item_def Let_def new_RunTreeItem_def apply_qualifies_def gated_statuses_def
      findApplyAttributes_first split: option.splits)

lemma run_item_contextValue:
  "rti_contextValue (run_item ext active included_opt run) =
     (if plan_qualifies included_opt run
      then (if apply_qualifies included_opt run then Some ''hasPlanhasApply''
            else Some ''hasPlan'')
      else (if apply_qualifies included_opt run then Some ''undefinedhasApply'' else None))"
  by (auto simp: run_item_def Let_def new_RunTreeItem_def plan_qualifies_def apply_qualifies_def
      gated_statuses_def findPlanAttributes_first findApplyAttributes_first js_string_def
      split: option.splits)

text \<open>
  C8: for every run of the fetched page, the item's \<open>planId\<close> and
  \<open>planAttributes\<close> are set, and its context value carries the plan marker,
  exactly when the run has a plan relationship whose plan is among \<open>included\<close>
  with status errored, canceled or finished; the same holds of \<open>applyId\<close>,
  \<open>applyAttributes\<close> and the apply marker; otherwise the fields are undefined.
  The items of a page with runs are the items of its runs, in order.
\<close>

theorem plan_apply_gating:
  "(rti_planId (run_item ext active included_opt run) \<noteq> None)
     = plan_qualifies included_opt run
   \<and> (rti_planAttributes (run_item ext active included_opt run) \<noteq> None)
     = plan_qualifies included_opt run
   \<and> has_plan_marker (rti_contextValue (run_item ext active included_opt run))
     = plan_qualifies included_opt run
   \<and> (rti_applyId (run_item ext active included_opt run) \<noteq> None)
     = apply_qualifies included_opt run
   \<and> (rti_applyAttributes (run_item ext active included_opt run) \<noteq> None)
     = apply_qualifies included_opt run
   \<and> has_apply_marker (rti_contextValue (run_item ext active included_opt run))
     = apply_qualifies included_opt run
   \<and> (workspaceState_get (prov_ctx this) ''terraform.cloud.organization'' [] \<noteq> [] \<and>
      host_session h \<noteq> None \<and> prov_activeWorkspace this = Some active \<and>
      host_listRuns h (listRuns_request workspace) = Inr runs \<and> runs_data runs \<noteq> []
      \<longrightarrow> snd (getRuns ext h this workspace) =
            map (\<lambda>run. RunElement (run_item ext active (runs_included runs) run))
              (runs_data runs))"
proof -
  have plan_ref: "plan_qualifies included_opt run \<Longrightarrow>
      chain_data_id (rel_plan (run_relationships run)) \<noteq> None \<and>
      Option.bind included_opt (\<lambda>included. findPlanAttributes included run) \<noteq> None"
    by (auto simp: plan_qualifies_def findPlanAttributes_first
        split: option.splits dest: first_referenced_ref)
  have apply_ref: "apply_qualifies included_opt run \<Longrightarrow>
      chain_data_id (rel_apply (run_relationships run)) \<noteq> None \<and>
      Option.bind included_opt (\<lambda>included. findApplyAttributes included run) \<noteq> None"
    by (auto simp: apply_qualifies_def findApplyAttributes_first
        split: option.splits dest: first_referenced_ref)
  have fields:
    "(rti_planId (run_item ext active included_opt run) \<noteq> None)
       = plan_qualifies included_opt run"
    "(rti_planAttributes (run_item ext active included_opt run) \<noteq> None)
       = plan_qualifies included_opt run"
    "(rti_applyId (run_item ext active included_opt run) \<noteq> None)
       = apply_qualifies included_opt run"
    "(rti_applyAttributes (run_item ext active included_opt run) \<noteq> None)
       = apply_qualifies included_opt run"
    using plan_ref apply_ref
    by (auto simp: run_item_plan_fields run_item_apply_fields)
  have markers:
    "has_plan_marker (rti_contextValue (run_item ext active included_opt run))
       = plan_qualifies included_opt run"
    "has_apply_marker (rti_contextValue (run_item ext active included_opt run))
       = apply_qualifies included_opt run"
    by (simp_all add: run_item_contextValue has_plan_marker_def has_apply_marker_def
        suffix_def)
  have page: "workspaceState_get (prov_ctx this) ''terraform.cloud.organization'' [] \<noteq> [] \<and>
      host_session h \<noteq> None \<and> prov_activeWorkspace this = Some active \<and>
      host_listRuns h (listRuns_request workspace) = Inr runs \<and> runs_data runs \<noteq> []
      \<longrightarrow> snd (getRuns ext h this workspace) =
            map (\<lambda>run. RunElement (run_item ext active (runs_included runs) run))
              (runs_data runs)"
    by (auto simp: getRuns_success)
  from fields markers page show ?thesis by blast
qed

theorem plan_apply_gating_witness:
  "workspaceState_get (prov_ctx sample_provider) ''terraform.cloud.organization'' [] \<noteq> []
   \<and> host_session (sample_host (Inr sample_page)) \<noteq> None
   \<and> prov_activeWorkspace sample_provider = Some sample_workspace
   \<and> host_listRuns (sample_host (Inr sample_page)) (listRuns_request sample_workspace)
       = Inr sample_page
   \<and> runs_data sample_page \<noteq> []
   \<and> snd (getRuns sample_externals (sample_host (Inr sample_page)) sample_provider
            sample_workspace)
       = [RunElement (run_item sample_externals sample_workspace (Some sample_included)
                        sample_run)]
   \<and> plan_qualifies (Some sample_included) sample_run
   \<and> rti_planId (run_item sample_externals sample_workspace (Some sample_included) sample_run)
       \<noteq> None
   \<and> apply_qualifies (Some sample_included) sample_run
   \<and> \<not> plan_qualifies (Some sample_included_running_plan) sample_run
   \<and> rti_planId (run_item sample_externals sample_workspace
                   (Some sample_included_running_plan) sample_run) = None"
  using
    plan_apply_gating [where this = sample_provider and ext = sample_externals
      and h = "sample_host (Inr sample_page)" and workspace = sample_workspace
      and active = sample_workspace and runs = sample_page
      and included_opt = "Some sample_included" and run = sample_run]
    plan_apply_gating [where this = sample_provider and ext = sample_externals
      and h = "sample_host (Inr sample_page)" and workspace = sample_workspace
      and active = sample_workspace and runs = sample_page
      and included_opt = "Some sample_included_running_plan" and run = sample_run]
  by (simp add: sample_provider_def sample_host_def workspaceState_get_def
      sample_page_def plan_qualifies_def apply_qualifies_def sample_included_def
      sample_included_running_plan_def sample_run_def sample_object_def
      sample_attributes_def ref_to_def chain_data_id_def)

text \<open>
  C9: the context value of a constructed run item is undefined when neither the
  plan nor the apply qualifies, \<open>hasPlan\<close> when only the plan does,
  \<open>hasPlanhasApply\<close> when both do, and \<open>undefinedhasApply\<close> when only the apply
  does, since \<open>hasApply\<close> is appended to a context value that is still
  undefined. The last two cases occur: on the sample page, and on the page whose
  plan is still running while its apply has finished.
\<close>

theorem context_value_cases:
  "rti_contextValue (run_item ext active included_opt run) =
     (if plan_qualifies included_opt run
      then (if apply_qualifies included_opt run then Some ''hasPlanhasApply''
            else Some ''hasPlan'')
      else (if apply_qualifies included_opt run then Some ''undefinedhasApply'' else None))
   \<and> rti_contextValue (new_RunTreeItem ext ident attrs active) = None
   \<and> rti_contextValue
       (run_item ext active (Some sample_included_running_plan) sample_run)
     = Some ''undefinedhasApply''
   \<and> rti_contextValue (run_item ext active (Some sample_included) sample_run)
     = Some ''hasPlanhasApply''"
proof -
  have a: "\<not> plan_qualifies (Some sample_included_running_plan) sample_run"
    by (simp add: plan_qualifies_def sample_included_running_plan_def sample_run_def
        sample_object_def sample_attributes_def ref_to_def chain_data_id_def)
  have b: "apply_qualifies (Some sample_included_running_plan) sample_run"
    by (simp add: apply_qualifies_def sample_included_running_plan_def sample_run_def
        sample_object_def sample_attributes_def ref_to_def chain_data_id_def)
  have c: "plan_qualifies (Some sample_included) sample_run"
    by (simp add: plan_qualifies_def sample_included_def sample_run_def
        sample_object_def sample_attributes_def ref_to_def chain_data_id_def)
  have d: "apply_qualifies (Some sample_included) sample_run"
    by (simp add: apply_qualifies_def sample_included_def sample_run_def
        sample_object_def sample_attributes_def ref_to_def chain_data_id_def)
  show ?thesis
    using a b c d by (simp add: run_item_contextValue new_RunTreeItem_def)
qed

section \<open>Properties of refresh\<close>

text \<open>
  C7: \<open>refresh(workspaceItem)\<close> sets the provider's active workspace to the
  item given, to undefined when none is given, fires the tree-data-change event
  once, and leaves the context, the reporter and the output channel of the
  provider as they were.
\<close>

theorem refresh_frame:
  "fst (refresh workspaceItem this) = [FireDidChangeTreeData]
   \<and> prov_activeWorkspace (snd (refresh workspaceItem this)) = workspaceItem
   \<and> prov_ctx (snd (refresh workspaceItem this)) = prov_ctx this
   \<and> prov_reporter (snd (refresh workspaceItem this)) = prov_reporter this
   \<and> prov_outputChannel (snd (refresh workspaceItem this)) = prov_outputChannel this
   \<and> snd (refresh workspaceItem this) = this\<lparr> prov_activeWorkspace := workspaceItem \<rparr>
   \<and> prov_activeWorkspace (snd (refresh None this)) = None"
  by (simp add: refresh_def Let_def)

section \<open>Properties of the TFLint command registrar\<close>

text \<open>
  C6: constructing the registrar registers one command, \<open>terraform.tflint\<close>,
  and nothing else; invoking its handler calls \<open>terraform.tflint\<close> with the
  client and the reporter the registrar was constructed with; the registrar
  holds the one disposable of that registration; and \<open>dispose\<close> disposes of
  every command the registrar holds, and of nothing else.
\<close>

theorem registrar_one_command:
  "reg_commands (snd (new_TFLintCommands client reporter reg)) =
     reg_commands reg @ [(''terraform.tflint'', TflintHandler client reporter)]
   \<and> invoke_handler (TflintHandler client reporter) = [TerraformTflint client reporter]
   \<and> reg_disposed (snd (new_TFLintCommands client reporter reg)) = reg_disposed reg
   \<and> tfl_commands (fst (new_TFLintCommands client reporter reg)) =
       [CommandDisposable (length (reg_commands reg))]
   \<and> tfl_client (fst (new_TFLintCommands client reporter reg)) = client
   \<and> tfl_reporter (fst (new_TFLintCommands client reporter reg)) = reporter
   \<and> (\<forall>d \<in> set (tfl_commands this). is_disposed d (TFLintCommands_dispose this reg'))
   \<and> reg_commands (TFLintCommands_dispose this reg') = reg_commands reg'
   \<and> reg_disposed (TFLintCommands_dispose this reg') =
       reg_disposed reg' @ map (\<lambda>d. case d of CommandDisposable n \<Rightarrow> n) (tfl_commands this)"
proof -
  have fold: "\<And>ds r. reg_commands (foldl (\<lambda>r c. dispose_command c r) r ds) = reg_commands r \<and>
      reg_disposed (foldl (\<lambda>r c. dispose_command c r) r ds) =
        reg_disposed r @ map (\<lambda>d. case d of CommandDisposable n \<Rightarrow> n) ds"
  proof -
    fix ds r
    show "reg_commands (foldl (\<lambda>r c. dispose_command c r) r ds) = reg_commands r \<and>
      reg_disposed (foldl (\<lambda>r c. dispose_command c r) r ds) =
        reg_disposed r @ map (\<lambda>d. case d of CommandDisposable n \<Rightarrow> n) ds"
      by (induction ds arbitrary: r) (simp_all add: dispose_command_def split: Disposable.split)
  qed
  have disp: "\<forall>d \<in> set (tfl_commands this). is_disposed d (TFLintCommands_dispose this reg')"
    by (force simp: is_disposed_def TFLintCommands_dispose_def fold split: Disposable.split)
  show ?thesis
    using disp
    by (simp add: new_TFLintCommands_def registerCommand_def TFLintCommands_dispose_def fold)
qed

theorem registrar_one_command_witness:
  "set (tfl_commands (fst (new_TFLintCommands (LanguageClient 1) (TelemetryReporter 2)
          \<lparr> reg_commands = [], reg_disposed = [] \<rparr>))) = {CommandDisposable 0}
   \<and> is_disposed (CommandDisposable 0)
       (TFLintCommands_dispose
          (fst (new_TFLintCommands (LanguageClient 1) (TelemetryReporter 2)
                  \<lparr> reg_commands = [], reg_disposed = [] \<rparr>))
          (snd (new_TFLintCommands (LanguageClient 1) (TelemetryReporter 2)
                  \<lparr> reg_commands = [], reg_disposed = [] \<rparr>)))"
  using registrar_one_command [of "LanguageClient 1" "TelemetryReporter 2"
      "\<lparr> reg_commands = [], reg_disposed = [] \<rparr>"
      "fst (new_TFLintCommands (LanguageClient 1) (TelemetryReporter 2)
                  \<lparr> reg_commands = [], reg_disposed = [] \<rparr>)"
      "snd (new_TFLintCommands (LanguageClient 1) (TelemetryReporter 2)
                  \<lparr> reg_commands = [], reg_disposed = [] \<rparr>)"]
  by simp

end
